theory Spec2Isabelle
  imports Complex_Main
begin

section \<open>Python values and exceptions\<close>

text \<open>
  The analyzer of \<^verbatim>\<open>chat_analyzer.py\<close> works on whatever \<^verbatim>\<open>json.load\<close>
  returns: \<^verbatim>\<open>None\<close>, booleans, integers, floats, strings, lists and dictionaries.
  A dictionary is an association list in insertion order (its keys are distinct, as in
  Python); the table later also holds the date-times that \<^verbatim>\<open>pd.to_datetime\<close>
  produces. A float is carried as the rational number it denotes. Strings are character
  lists.
\<close>

datatype datetime =
    NaT
  | Timestamp (year: int) (month: nat) (day: nat) (hour: nat) (minute: nat) (second: nat)

datatype pyval =
    PyNone
  | PyBool bool
  | PyInt int
  | PyFloat rat
  | PyStr string
  | PyList "pyval list"
  | PyDict "(string \<times> pyval) list"
  | PyDatetime datetime

text \<open>The exceptions the code can meet.\<close>

datatype error =
    AttributeError
  | TypeError
  | KeyError string
  | ValueError
  | JSONDecodeError
  | OSError

text \<open>Sequencing of statements that may raise: the first exception ends the run.\<close>

definition ebind :: "error + 'a \<Rightarrow> ('a \<Rightarrow> error + 'b) \<Rightarrow> error + 'b" where
  "ebind m f = (case m of Inl e \<Rightarrow> Inl e | Inr x \<Rightarrow> f x)"

text \<open>\<^verbatim>\<open>obj.get(key, default)\<close>: only a dictionary has the method.\<close>

fun py_get :: "pyval \<Rightarrow> string \<Rightarrow> pyval \<Rightarrow> error + pyval" where
  "py_get (PyDict kvs) k d = Inr (case map_of kvs k of Some v \<Rightarrow> v | None \<Rightarrow> d)"
| "py_get _ k d = Inl AttributeError"

text \<open>
  \<^verbatim>\<open>for x in obj\<close>: a list yields its elements, a dictionary its keys, a string its
  characters; anything else is not iterable.
\<close>

fun py_iter :: "pyval \<Rightarrow> error + pyval list" where
  "py_iter (PyList xs) = Inr xs"
| "py_iter (PyDict kvs) = Inr (map (\<lambda>kv. PyStr (fst kv)) kvs)"
| "py_iter (PyStr s) = Inr (map (\<lambda>c. PyStr [c]) s)"
| "py_iter _ = Inl TypeError"

text \<open>\<^verbatim>\<open>obj[key] = v\<close> with a string key: only a dictionary accepts it.\<close>

fun dict_set :: "string \<Rightarrow> pyval \<Rightarrow> (string \<times> pyval) list \<Rightarrow> (string \<times> pyval) list" where
  "dict_set k v [] = [(k, v)]"
| "dict_set k v (p # ps) = (if fst p = k then (k, v) # ps else p # dict_set k v ps)"

fun py_setitem :: "pyval \<Rightarrow> string \<Rightarrow> pyval \<Rightarrow> error + pyval" where
  "py_setitem (PyDict kvs) k v = Inr (PyDict (dict_set k v kvs))"
| "py_setitem _ k v = Inl TypeError"

definition endswith :: "string \<Rightarrow> string \<Rightarrow> bool" where
  "endswith s suf \<longleftrightarrow> length suf \<le> length s \<and> drop (length s - length suf) s = suf"

section \<open>File Loader: \<^verbatim>\<open>load_json_files\<close>\<close>

text \<open>
  The directory is the list \<^verbatim>\<open>os.listdir\<close> returns, each name paired with what
  \<^verbatim>\<open>open\<close> followed by \<^verbatim>\<open>json.load\<close> does on that file: the exception raised
  or the value returned. The function appends to \<^verbatim>\<open>self.all_data\<close> (empty after
  \<^verbatim>\<open>__init__\<close>) and prints one line per file, then the total; the printed lines
  are returned as a log. Printing itself is taken not to raise.
\<close>

datatype log_line =
    Loaded string
  | LoadFailed string error
  | TotalLoaded nat

type_synonym directory = "(string \<times> (error + pyval)) list"

text \<open>The body of the \<^verbatim>\<open>try\<close>: read and parse, tag with the file name.\<close>

definition try_load :: "string \<Rightarrow> error + pyval \<Rightarrow> error + pyval" where
  "try_load file_name content =
     ebind content (\<lambda>data. py_setitem data ''source_file'' (PyStr file_name))"

fun load_loop :: "directory \<Rightarrow> pyval list \<times> log_line list \<Rightarrow> pyval list \<times> log_line list" where
  "load_loop [] st = st"
| "load_loop ((file_name, content) # fs) (all_data, out) =
     (case try_load file_name content of
        Inr data \<Rightarrow> load_loop fs (all_data @ [data], out @ [Loaded file_name])
      | Inl e \<Rightarrow> load_loop fs (all_data, out @ [LoadFailed file_name e]))"

definition json_files :: "directory \<Rightarrow> directory" where
  "json_files dir = filter (\<lambda>f. endswith (fst f) ''.json'') dir"

definition load_json_files :: "directory \<Rightarrow> pyval list \<Rightarrow> pyval list \<times> log_line list" where
  "load_json_files dir all_data =
     (let (loaded, out) = load_loop (json_files dir) (all_data, [])
      in (loaded, out @ [TotalLoaded (length loaded)]))"

section \<open>Record Flattener and Table Builder: \<^verbatim>\<open>process_data\<close>\<close>

record flat_record =
  user_id :: pyval
  project_id :: pyval
  session_id :: pyval
  session_datetime :: pyval
  session_total_tokens :: pyval
  source_file :: pyval
  input_prompt :: pyval
  output_response :: pyval
  timestamp :: pyval
  input_tokens :: pyval
  output_tokens :: pyval
  total_tokens :: pyval

text \<open>A loop whose body appends rows; an exception in the body ends the loop.\<close>

fun for_rows :: "('a \<Rightarrow> error + 'r list) \<Rightarrow> 'a list \<Rightarrow> error + 'r list" where
  "for_rows body [] = Inr []"
| "for_rows body (x # xs) =
     (case body x of
        Inl e \<Rightarrow> Inl e
      | Inr rs \<Rightarrow> (case for_rows body xs of Inl e \<Rightarrow> Inl e | Inr rs' \<Rightarrow> Inr (rs @ rs')))"

text \<open>The innermost body (source lines 61 to 75): one row per chat turn.\<close>

definition chat_row ::
  "pyval \<Rightarrow> pyval \<Rightarrow> pyval \<Rightarrow> pyval \<Rightarrow> pyval \<Rightarrow> pyval \<Rightarrow> pyval \<Rightarrow> error + flat_record list" where
  "chat_row uid pid sid sdt stt sf chat =
     ebind (py_get chat ''input_prompt'' (PyStr '''')) (\<lambda>ip.
     ebind (py_get chat ''output_response'' (PyStr '''')) (\<lambda>orr.
     ebind (py_get chat ''timestamp'' (PyStr '''')) (\<lambda>ts.
     ebind (py_get chat ''input_tokens'' (PyInt 0)) (\<lambda>it.
     ebind (py_get chat ''output_tokens'' (PyInt 0)) (\<lambda>ot.
     ebind (py_get chat ''total_tokens'' (PyInt 0)) (\<lambda>tt.
       Inr [\<lparr>user_id = uid, project_id = pid, session_id = sid, session_datetime = sdt,
             session_total_tokens = stt, source_file = sf, input_prompt = ip,
             output_response = orr, timestamp = ts, input_tokens = it,
             output_tokens = ot, total_tokens = tt\<rparr>]))))))"

text \<open>The body of the loop over sessions (source lines 53 to 75).\<close>

definition session_rows :: "pyval \<Rightarrow> pyval \<Rightarrow> error + flat_record list" where
  "session_rows session_data chat_session =
     ebind (py_get chat_session ''user_id'' (PyStr ''Unknown'')) (\<lambda>uid.
     ebind (py_get chat_session ''project_id'' (PyStr ''Unknown'')) (\<lambda>pid.
     ebind (py_get chat_session ''session_id'' (PyStr ''Unknown'')) (\<lambda>sid.
     ebind (py_get chat_session ''datetime'' (PyStr '''')) (\<lambda>sdt.
     ebind (py_get chat_session ''session_total_tokens'' (PyInt 0)) (\<lambda>stt.
     ebind (py_get session_data ''source_file'' (PyStr ''Unknown'')) (\<lambda>sf.
     ebind (py_get chat_session ''chat_data'' (PyList [])) (\<lambda>chat_data.
     ebind (py_iter chat_data) (\<lambda>chats.
       for_rows (chat_row uid pid sid sdt stt sf) chats))))))))"

text \<open>The body of the loop over documents (source lines 50 to 75).\<close>

definition document_rows :: "pyval \<Rightarrow> error + flat_record list" where
  "document_rows session_data =
     ebind (py_get session_data ''chat_history'' (PyList [])) (\<lambda>chat_history.
     ebind (py_iter chat_history) (\<lambda>sessions.
       for_rows (session_rows session_data) sessions))"

definition flatten :: "pyval list \<Rightarrow> error + flat_record list" where
  "flatten all_data = for_rows document_rows all_data"

text \<open>
  \<^verbatim>\<open>pd.DataFrame(processed_rows)\<close>: the columns are the keys of the row
  dictionaries, so a frame built from no rows has no columns at all.
\<close>

record data_frame =
  columns :: "string list"
  records :: "flat_record list"

definition row_keys :: "string list" where
  "row_keys = [''user_id'', ''project_id'', ''session_id'', ''session_datetime'',
     ''session_total_tokens'', ''source_file'', ''input_prompt'', ''output_response'',
     ''timestamp'', ''input_tokens'', ''output_tokens'', ''total_tokens'']"

definition DataFrame :: "flat_record list \<Rightarrow> data_frame" where
  "DataFrame rs = \<lparr>columns = (if rs = [] then [] else row_keys), records = rs\<rparr>"

text \<open>\<^verbatim>\<open>df[name]\<close>: a column that is not there raises \<^verbatim>\<open>KeyError\<close>.\<close>

definition get_column :: "string \<Rightarrow> (flat_record \<Rightarrow> 'c) \<Rightarrow> data_frame \<Rightarrow> error + 'c list" where
  "get_column name field df =
     (if name \<in> set (columns df) then Inr (map field (records df)) else Inl (KeyError name))"

text \<open>
  \<^verbatim>\<open>pd.to_datetime\<close> with its default \<^verbatim>\<open>errors='raise'\<close>. The parser of one cell
  is pandas' own and is a parameter: \<open>None\<close> where it rejects the cell, \<open>Some NaT\<close>
  where it reads a missing value. One rejected cell raises for the whole column.
\<close>

fun to_datetime :: "(pyval \<Rightarrow> datetime option) \<Rightarrow> pyval list \<Rightarrow> error + pyval list" where
  "to_datetime parse [] = Inr []"
| "to_datetime parse (c # cs) =
     (case parse c of
        None \<Rightarrow> Inl ValueError
      | Some d \<Rightarrow> (case to_datetime parse cs of
                     Inl e \<Rightarrow> Inl e
                   | Inr ds \<Rightarrow> Inr (PyDatetime d # ds)))"

text \<open>\<^verbatim>\<open>df[name] = cells\<close> for the two columns the code assigns.\<close>

definition set_timestamp :: "pyval list \<Rightarrow> data_frame \<Rightarrow> data_frame" where
  "set_timestamp cells df =
     df\<lparr>records := map (\<lambda>(r, c). r\<lparr>timestamp := c\<rparr>) (zip (records df) cells)\<rparr>"

definition set_session_datetime :: "pyval list \<Rightarrow> data_frame \<Rightarrow> data_frame" where
  "set_session_datetime cells df =
     df\<lparr>records := map (\<lambda>(r, c). r\<lparr>session_datetime := c\<rparr>) (zip (records df) cells)\<rparr>"

definition process_data :: "(pyval \<Rightarrow> datetime option) \<Rightarrow> pyval list \<Rightarrow> error + data_frame" where
  "process_data parse all_data =
     ebind (flatten all_data) (\<lambda>processed_rows.
     let df = DataFrame processed_rows in
     ebind (get_column ''timestamp'' timestamp df) (\<lambda>ts.
     ebind (to_datetime parse ts) (\<lambda>ts'.
     let df1 = set_timestamp ts' df in
     ebind (get_column ''session_datetime'' session_datetime df1) (\<lambda>sd.
     ebind (to_datetime parse sd) (\<lambda>sd'.
       Inr (set_session_datetime sd' df1))))))"

section \<open>pandas operations used by the charts and the report\<close>

text \<open>\<^verbatim>\<open>Series.unique()\<close>: the distinct cells in order of first appearance.\<close>

fun unique_from :: "'a list \<Rightarrow> 'a list \<Rightarrow> 'a list" where
  "unique_from seen [] = seen"
| "unique_from seen (x # xs) =
     (if x \<in> set seen then unique_from seen xs else unique_from (seen @ [x]) xs)"

definition unique :: "'a list \<Rightarrow> 'a list" where
  "unique xs = unique_from [] xs"


definition in_int64 :: "int \<Rightarrow> bool" where
  "in_int64 i \<longleftrightarrow> - (2 ^ 63) \<le> i \<and> i < 2 ^ 63"

fun is_int64_cell :: "pyval \<Rightarrow> bool" where
  "is_int64_cell (PyInt i) = in_int64 i"
| "is_int64_cell v = False"


text \<open>The integers held by the cells of a column, in order.\<close>

fun int_values :: "pyval list \<Rightarrow> int list" where
  "int_values [] = []"
| "int_values (PyInt i # cs) = i # int_values cs"
| "int_values (c # cs) = int_values cs"







text \<open>\<^verbatim>\<open>df[df['source_file'] == source_file]\<close>: the rows of one file.\<close>

definition file_data :: "pyval \<Rightarrow> data_frame \<Rightarrow> error + data_frame" where
  "file_data f df =
     (if ''source_file'' \<in> set (columns df)
      then Inr (df\<lparr>records := filter (\<lambda>r. source_file r = f) (records df)\<rparr>)
      else Inl (KeyError ''source_file''))"

text \<open>
  \<^verbatim>\<open>Series.dt.hour\<close>: defined on a column of date-times only; the hour of NaT is
  NaN, here \<open>None\<close>.
\<close>

fun dt_hour :: "pyval list \<Rightarrow> error + nat option list" where
  "dt_hour [] = Inr []"
| "dt_hour (PyDatetime d # cs) =
     (case dt_hour cs of
        Inl e \<Rightarrow> Inl e
      | Inr hs \<Rightarrow> Inr ((case d of NaT \<Rightarrow> None | Timestamp y mo dd h mi s \<Rightarrow> Some h) # hs))"
| "dt_hour (c # cs) = Inl AttributeError"

text \<open>
  \<^verbatim>\<open>groupby(keys).size()\<close>: one entry per key that is not missing, keys in
  ascending order, each with its number of rows.
\<close>

definition groupby_size :: "nat option list \<Rightarrow> (nat \<times> nat) list" where
  "groupby_size ks =
     map (\<lambda>k. (k, count_list ks (Some k))) (sort (remdups (List.map_filter (\<lambda>k. k) ks)))"

text \<open>\<^verbatim>\<open>Series.idxmax()\<close>: the label of the first maximum; no entries raise.\<close>

fun idxmax_from :: "'k \<times> nat \<Rightarrow> ('k \<times> nat) list \<Rightarrow> 'k" where
  "idxmax_from best [] = fst best"
| "idxmax_from best (kv # kvs) =
     (if snd best < snd kv then idxmax_from kv kvs else idxmax_from best kvs)"

fun idxmax :: "('k \<times> nat) list \<Rightarrow> error + 'k" where
  "idxmax [] = Inl ValueError"
| "idxmax (kv # kvs) = Inr (idxmax_from kv kvs)"

section \<open>Text: lower-casing, tokens, counting\<close>

text \<open>
  The text functions are described for ASCII: \<^verbatim>\<open>\w\<close> is a letter, a digit or the
  underscore, and \<^verbatim>\<open>lower()\<close> changes the capital letters A to Z only.
\<close>

definition is_word_char :: "char \<Rightarrow> bool" where
  "is_word_char c \<longleftrightarrow>
     (let n = (of_char c :: nat)
      in (48 \<le> n \<and> n \<le> 57) \<or> (65 \<le> n \<and> n \<le> 90) \<or> n = 95 \<or> (97 \<le> n \<and> n \<le> 122))"

definition lower_char :: "char \<Rightarrow> char" where
  "lower_char c =
     (let n = (of_char c :: nat) in if 65 \<le> n \<and> n \<le> 90 then char_of (n + 32) else c)"

definition py_lower :: "string \<Rightarrow> string" where
  "py_lower s = map lower_char s"

text \<open>
  \<^verbatim>\<open>re.findall(r'\b\w+\b', s)\<close>: the maximal runs of word characters, left to
  right. \<open>cur\<close> is the run being read, reversed.
\<close>

fun findall_from :: "string \<Rightarrow> string \<Rightarrow> string list" where
  "findall_from cur [] = (if cur = [] then [] else [rev cur])"
| "findall_from cur (c # cs) =
     (if is_word_char c then findall_from (c # cur) cs
      else (if cur = [] then [] else [rev cur]) @ findall_from [] cs)"

definition findall_words :: "string \<Rightarrow> string list" where
  "findall_words s = findall_from [] s"

text \<open>
  \<^verbatim>\<open>Counter(words)\<close>: a dictionary from word to count, in order of first
  appearance; \<^verbatim>\<open>pop(word, None)\<close> removes a key if it is there;
  \<^verbatim>\<open>most_common(n)\<close> sorts by count, largest first, equal counts in dictionary
  order, and keeps the first \<open>n\<close>.
\<close>

fun counter_add :: "'a \<Rightarrow> ('a \<times> nat) list \<Rightarrow> ('a \<times> nat) list" where
  "counter_add w [] = [(w, 1)]"
| "counter_add w (p # ps) =
     (if fst p = w then (w, snd p + 1) # ps else p # counter_add w ps)"

definition Counter :: "'a list \<Rightarrow> ('a \<times> nat) list" where
  "Counter ws = fold counter_add ws []"

definition counter_pop :: "'a \<Rightarrow> ('a \<times> nat) list \<Rightarrow> ('a \<times> nat) list" where
  "counter_pop w c = filter (\<lambda>p. fst p \<noteq> w) c"

definition most_common :: "nat \<Rightarrow> ('a \<times> nat) list \<Rightarrow> ('a \<times> nat) list" where
  "most_common n c = take n (sort_key (\<lambda>p. - int (snd p)) c)"

definition stop_words :: "string list" where
  "stop_words = [''the'', ''and'', ''to'', ''of'', ''a'', ''in'', ''is'', ''that'', ''it'',
     ''on'', ''you'', ''for'', ''i'', ''with'', ''as'', ''at'', ''this'', ''but'', ''be'', ''are'']"

text \<open>
  \<^verbatim>\<open>' '.join(df['input_prompt'].astype(str))\<close>: a string cell is itself; how
  Python prints any other cell is the parameter \<open>str_of\<close>.
\<close>

definition astype_str :: "(pyval \<Rightarrow> string) \<Rightarrow> pyval \<Rightarrow> string" where
  "astype_str str_of v = (case v of PyStr s \<Rightarrow> s | _ \<Rightarrow> str_of v)"

fun join_space :: "string list \<Rightarrow> string" where
  "join_space [] = []"
| "join_space [s] = s"
| "join_space (s # t # ts) = s @ '' '' @ join_space (t # ts)"

definition prompt_text :: "(pyval \<Rightarrow> string) \<Rightarrow> data_frame \<Rightarrow> error + string" where
  "prompt_text str_of df =
     ebind (get_column ''input_prompt'' input_prompt df) (\<lambda>cells.
       Inr (join_space (map (astype_str str_of) cells)))"

section \<open>Chart Generator: \<^verbatim>\<open>create_visualizations\<close>\<close>



text \<open>
  Chart 3 (source lines 137 to 148): the words and counts of the horizontal bars.
  Unpacking \<^verbatim>\<open>zip(*common_words)\<close> raises when no word is left.
\<close>

definition chart_word_ranking :: "string \<Rightarrow> (string \<times> nat) list" where
  "chart_word_ranking all_text =
     (let words = findall_words (py_lower all_text);
          word_freq = fold counter_pop stop_words (Counter words)
      in most_common 20 word_freq)"

definition common_words_chart ::
  "(pyval \<Rightarrow> string) \<Rightarrow> pyval \<Rightarrow> data_frame \<Rightarrow> error + string list \<times> nat list" where
  "common_words_chart str_of f df =
     ebind (file_data f df) (\<lambda>fd.
     ebind (prompt_text str_of fd) (\<lambda>all_text.
       let common_words = chart_word_ranking all_text
       in if common_words = [] then Inl ValueError
          else Inr (map fst common_words, map snd common_words)))"

section \<open>Report Generator: \<^verbatim>\<open>generate_summary_report\<close>\<close>



text \<open>"Busiest Hour" (source line 226).\<close>

definition busiest_hour :: "data_frame \<Rightarrow> error + nat" where
  "busiest_hour df =
     ebind (get_column ''timestamp'' timestamp df) (\<lambda>ts.
     ebind (dt_hour ts) (\<lambda>hs.
       idxmax (groupby_size hs)))"

text \<open>"Top Topics (Most Common Words)" (source lines 230 to 234).\<close>

definition report_word_ranking :: "string \<Rightarrow> (string \<times> nat) list" where
  "report_word_ranking all_text =
     (let words = findall_words (py_lower all_text) in most_common 5 (Counter words))"

definition report_top_words :: "(pyval \<Rightarrow> string) \<Rightarrow> data_frame \<Rightarrow> error + (string \<times> nat) list" where
  "report_top_words str_of df =
     ebind (prompt_text str_of df) (\<lambda>all_text. Inr (report_word_ranking all_text))"

section \<open>Inputs of the expected shape\<close>

text \<open>
  A well-formed document is a dictionary whose \<^verbatim>\<open>chat_history\<close>, when present, is a
  list of sessions; a well-formed session is a dictionary whose \<^verbatim>\<open>chat_data\<close>, when
  present, is a list of dictionaries (the turns). No key is required to be present.
\<close>

fun is_dict :: "pyval \<Rightarrow> bool" where
  "is_dict (PyDict kvs) = True"
| "is_dict v = False"

fun wf_session :: "pyval \<Rightarrow> bool" where
  "wf_session (PyDict kvs) =
     (case map_of kvs ''chat_data'' of
        None \<Rightarrow> True
      | Some (PyList cs) \<Rightarrow> list_all is_dict cs
      | Some v \<Rightarrow> False)"
| "wf_session v = False"

fun wf_document :: "pyval \<Rightarrow> bool" where
  "wf_document (PyDict kvs) =
     (case map_of kvs ''chat_history'' of
        None \<Rightarrow> True
      | Some (PyList ss) \<Rightarrow> list_all wf_session ss
      | Some v \<Rightarrow> False)"
| "wf_document v = False"

text \<open>The number of chat turns of a session, and of all sessions of a document.\<close>

fun session_turns :: "pyval \<Rightarrow> nat" where
  "session_turns (PyDict kvs) =
     (case map_of kvs ''chat_data'' of Some (PyList cs) \<Rightarrow> length cs | _ \<Rightarrow> 0)"
| "session_turns v = 0"

fun document_turns :: "pyval \<Rightarrow> nat" where
  "document_turns (PyDict kvs) =
     (case map_of kvs ''chat_history'' of
        Some (PyList ss) \<Rightarrow> sum_list (map session_turns ss)
      | _ \<Rightarrow> 0)"
| "document_turns v = 0"

text \<open>
  The row the specification prescribes for one turn \<open>c\<close> of a session \<open>s\<close> of a
  document \<open>d\<close> (all three dictionaries): every field is the value under its key, or
  the sentinel when the key is absent.
\<close>

definition sentinel_row ::
  "(string \<times> pyval) list \<Rightarrow> (string \<times> pyval) list \<Rightarrow> (string \<times> pyval) list \<Rightarrow> flat_record" where
  "sentinel_row d s c =
     \<lparr>user_id = (case map_of s ''user_id'' of None \<Rightarrow> PyStr ''Unknown'' | Some v \<Rightarrow> v),
      project_id = (case map_of s ''project_id'' of None \<Rightarrow> PyStr ''Unknown'' | Some v \<Rightarrow> v),
      session_id = (case map_of s ''session_id'' of None \<Rightarrow> PyStr ''Unknown'' | Some v \<Rightarrow> v),
      session_datetime = (case map_of s ''datetime'' of None \<Rightarrow> PyStr '''' | Some v \<Rightarrow> v),
      session_total_tokens =
        (case map_of s ''session_total_tokens'' of None \<Rightarrow> PyInt 0 | Some v \<Rightarrow> v),
      source_file = (case map_of d ''source_file'' of None \<Rightarrow> PyStr ''Unknown'' | Some v \<Rightarrow> v),
      input_prompt = (case map_of c ''input_prompt'' of None \<Rightarrow> PyStr '''' | Some v \<Rightarrow> v),
      output_response = (case map_of c ''output_response'' of None \<Rightarrow> PyStr '''' | Some v \<Rightarrow> v),
      timestamp = (case map_of c ''timestamp'' of None \<Rightarrow> PyStr '''' | Some v \<Rightarrow> v),
      input_tokens = (case map_of c ''input_tokens'' of None \<Rightarrow> PyInt 0 | Some v \<Rightarrow> v),
      output_tokens = (case map_of c ''output_tokens'' of None \<Rightarrow> PyInt 0 | Some v \<Rightarrow> v),
      total_tokens = (case map_of c ''total_tokens'' of None \<Rightarrow> PyInt 0 | Some v \<Rightarrow> v)\<rparr>"

text \<open>
  What the loader does with one file of the directory: it is loaded exactly when it
  parses and the parsed value is a dictionary (only then can it be tagged).
\<close>

fun parses :: "error + pyval \<Rightarrow> bool" where
  "parses (Inr v) = True"
| "parses (Inl e) = False"

fun loadable :: "error + pyval \<Rightarrow> bool" where
  "loadable (Inr (PyDict kvs)) = True"
| "loadable c = False"

fun is_failure :: "log_line \<Rightarrow> bool" where
  "is_failure (LoadFailed n e) = True"
| "is_failure l = False"

fun is_success :: "log_line \<Rightarrow> bool" where
  "is_success (Loaded n) = True"
| "is_success l = False"

fun line_file :: "log_line \<Rightarrow> string" where
  "line_file (Loaded n) = n"
| "line_file (LoadFailed n e) = n"
| "line_file (TotalLoaded k) = []"

text \<open>
  The hour of a cell of the \<^verbatim>\<open>timestamp\<close> column, and the number of rows of a
  table at a given hour of the day.
\<close>

fun hour_of :: "pyval \<Rightarrow> nat option" where
  "hour_of (PyDatetime (Timestamp y mo dd h mi s)) = Some h"
| "hour_of v = None"

definition rows_at_hour :: "data_frame \<Rightarrow> nat \<Rightarrow> nat" where
  "rows_at_hour df k = length (filter (\<lambda>r. hour_of (timestamp r) = Some k) (records df))"

section \<open>Basic facts\<close>

lemma ebind_Inr [simp]: "ebind (Inr x) f = f x"
  by (simp add: ebind_def)

lemma ebind_Inl [simp]: "ebind (Inl e) f = Inl e"
  by (simp add: ebind_def)

section \<open>The flattener on well-formed documents\<close>

lemma for_rows_append:
  "for_rows body (xs @ ys) =
     (case for_rows body xs of
        Inl e \<Rightarrow> Inl e
      | Inr rs \<Rightarrow> (case for_rows body ys of Inl e \<Rightarrow> Inl e | Inr rs' \<Rightarrow> Inr (rs @ rs')))"
  by (induction xs) (auto split: sum.splits)

lemma for_rows_total:
  assumes "\<And>x. x \<in> set xs \<Longrightarrow> \<exists>rs. body x = Inr rs \<and> length rs = n x"
  shows "\<exists>rs. for_rows body xs = Inr rs \<and> length rs = sum_list (map n xs)"
  using assms
proof (induction xs)
  case Nil
  show ?case by simp
next
  case (Cons x xs)
  from Cons.prems obtain rs where rs: "body x = Inr rs" "length rs = n x"
    by (meson list.set_intros(1))
  from Cons obtain rs' where rs': "for_rows body xs = Inr rs'" "length rs' = sum_list (map n xs)"
    by (meson list.set_intros(2))
  show ?case using rs rs' by simp
qed

lemma chat_row_dict:
  "chat_row uid pid sid sdt stt sf (PyDict c) =
     Inr [\<lparr>user_id = uid, project_id = pid, session_id = sid, session_datetime = sdt,
           session_total_tokens = stt, source_file = sf,
           input_prompt = (case map_of c ''input_prompt'' of Some v \<Rightarrow> v | None \<Rightarrow> PyStr ''''),
           output_response = (case map_of c ''output_response'' of Some v \<Rightarrow> v | None \<Rightarrow> PyStr ''''),
           timestamp = (case map_of c ''timestamp'' of Some v \<Rightarrow> v | None \<Rightarrow> PyStr ''''),
           input_tokens = (case map_of c ''input_tokens'' of Some v \<Rightarrow> v | None \<Rightarrow> PyInt 0),
           output_tokens = (case map_of c ''output_tokens'' of Some v \<Rightarrow> v | None \<Rightarrow> PyInt 0),
           total_tokens = (case map_of c ''total_tokens'' of Some v \<Rightarrow> v | None \<Rightarrow> PyInt 0)\<rparr>]"
  by (simp add: chat_row_def)

lemma is_dict_iff: "is_dict v \<longleftrightarrow> (\<exists>kvs. v = PyDict kvs)"
  by (cases v) simp_all

lemma chat_rows_total:
  "list_all is_dict cs \<Longrightarrow>
     \<exists>rs. for_rows (chat_row uid pid sid sdt stt sf) cs = Inr rs \<and> length rs = length cs"
proof -
  assume a: "list_all is_dict cs"
  have "\<exists>rs. for_rows (chat_row uid pid sid sdt stt sf) cs = Inr rs
          \<and> length rs = sum_list (map (\<lambda>c. 1) cs)"
  proof (rule for_rows_total)
    fix x assume "x \<in> set cs"
    with a obtain c where "x = PyDict c" by (auto simp: list_all_iff is_dict_iff)
    then show "\<exists>rs. chat_row uid pid sid sdt stt sf x = Inr rs \<and> length rs = 1"
      by (simp add: chat_row_dict)
  qed
  then show ?thesis by (simp add: sum_list_triv)
qed

lemma session_rows_total:
  assumes "wf_session s"
  shows "\<exists>rs. session_rows (PyDict d) s = Inr rs \<and> length rs = session_turns s"
proof -
  from assms obtain kvs where s: "s = PyDict kvs" by (cases s) simp_all
  show ?thesis
  proof (cases "map_of kvs ''chat_data''")
    case None
    then show ?thesis by (simp add: s session_rows_def)
  next
    case (Some v)
    with assms s obtain cs where v: "v = PyList cs" and cs: "list_all is_dict cs"
      by (cases v) simp_all
    from chat_rows_total [OF cs] show ?thesis
      by (simp add: s Some v session_rows_def)
  qed
qed

lemma document_rows_total:
  assumes "wf_document doc"
  shows "\<exists>rs. document_rows doc = Inr rs \<and> length rs = document_turns doc"
proof -
  from assms obtain kvs where d: "doc = PyDict kvs" by (cases doc) simp_all
  show ?thesis
  proof (cases "map_of kvs ''chat_history''")
    case None
    then show ?thesis by (simp add: d document_rows_def)
  next
    case (Some v)
    with assms d obtain ss where v: "v = PyList ss" and ss: "list_all wf_session ss"
      by (cases v) simp_all
    have "\<exists>rs. for_rows (session_rows (PyDict kvs)) ss = Inr rs
            \<and> length rs = sum_list (map session_turns ss)"
      by (rule for_rows_total) (use ss in \<open>auto simp: list_all_iff intro: session_rows_total\<close>)
    then show ?thesis
      by (simp add: d Some v document_rows_def)
  qed
qed

lemma flatten_total:
  assumes "list_all wf_document docs"
  shows "\<exists>rs. flatten docs = Inr rs \<and> length rs = sum_list (map document_turns docs)"
  unfolding flatten_def
  by (rule for_rows_total) (use assms in \<open>auto simp: list_all_iff intro: document_rows_total\<close>)

section \<open>The table builder\<close>

lemma to_datetime_Inr:
  "to_datetime parse cs = Inr ds \<Longrightarrow>
     length ds = length cs \<and> (\<forall>c\<in>set cs. parse c \<noteq> None)"
  by (induction cs arbitrary: ds) (auto split: option.splits sum.splits)

lemma to_datetime_reject:
  "c \<in> set cs \<Longrightarrow> parse c = None \<Longrightarrow> to_datetime parse cs = Inl ValueError"
proof (induction cs)
  case Nil
  then show ?case by simp
next
  case (Cons x xs)
  show ?case
  proof (cases "parse x")
    case None
    then show ?thesis by simp
  next
    case (Some d)
    with Cons.prems have "c \<in> set xs" by auto
    with Cons have "to_datetime parse xs = Inl ValueError" by simp
    with Some show ?thesis by simp
  qed
qed

lemma to_datetime_Inl: "to_datetime parse cs = Inl e \<Longrightarrow> e = ValueError"
  by (induction cs) (auto split: option.splits sum.splits)

lemma to_datetime_accept:
  "\<forall>c\<in>set cs. parse c \<noteq> None \<Longrightarrow>
     to_datetime parse cs = Inr (map (\<lambda>c. PyDatetime (the (parse c))) cs)"
  by (induction cs) auto

lemma records_DataFrame [simp]: "records (DataFrame rs) = rs"
  by (simp add: DataFrame_def)

lemma columns_DataFrame: "rs \<noteq> [] \<Longrightarrow> columns (DataFrame rs) = row_keys"
  by (simp add: DataFrame_def)

lemma get_column_DataFrame:
  "rs \<noteq> [] \<Longrightarrow> name \<in> set row_keys \<Longrightarrow> get_column name field (DataFrame rs) = Inr (map field rs)"
  by (simp add: get_column_def DataFrame_def)

lemma process_data_no_rows:
  "flatten docs = Inr [] \<Longrightarrow> process_data parse docs = Inl (KeyError ''timestamp'')"
  by (simp add: process_data_def DataFrame_def get_column_def)

lemma session_datetime_set_timestamp:
  "length cells = length (records df) \<Longrightarrow>
     map session_datetime (records (set_timestamp cells df)) = map session_datetime (records df)"
  by (auto simp: set_timestamp_def list_eq_iff_nth_eq)

lemma process_data_Inr:
  assumes "process_data parse docs = Inr df"
  shows "\<exists>rs. flatten docs = Inr rs \<and> rs \<noteq> [] \<and> length (records df) = length rs
           \<and> (\<forall>r\<in>set rs. parse (timestamp r) \<noteq> None \<and> parse (session_datetime r) \<noteq> None)"
proof -
  from assms obtain rs where rs: "flatten docs = Inr rs"
    by (cases "flatten docs") (simp_all add: process_data_def)
  have ne: "rs \<noteq> []"
    using assms rs process_data_no_rows [of docs parse] by auto
  have tk: "''timestamp'' \<in> set row_keys" "''session_datetime'' \<in> set row_keys"
    by (simp_all add: row_keys_def)
  from assms rs ne obtain ts where ts: "to_datetime parse (map timestamp rs) = Inr ts"
    by (cases "to_datetime parse (map timestamp rs)")
       (simp_all add: process_data_def get_column_DataFrame tk Let_def)
  from to_datetime_Inr [OF ts] have lts: "length ts = length rs"
    and pts: "\<forall>r\<in>set rs. parse (timestamp r) \<noteq> None" by auto
  have cols: "columns (set_timestamp ts (DataFrame rs)) = row_keys"
    using ne by (simp add: set_timestamp_def DataFrame_def)
  have sd: "get_column ''session_datetime'' session_datetime (set_timestamp ts (DataFrame rs))
              = Inr (map session_datetime rs)"
    using session_datetime_set_timestamp [of ts "DataFrame rs"] lts tk
    by (simp add: get_column_def cols)
  from assms rs ne ts sd obtain sds where
    sds: "to_datetime parse (map session_datetime rs) = Inr sds"
    by (cases "to_datetime parse (map session_datetime rs)")
       (simp_all add: process_data_def get_column_DataFrame tk Let_def)
  from to_datetime_Inr [OF sds] have lsd: "length sds = length rs"
    and psd: "\<forall>r\<in>set rs. parse (session_datetime r) \<noteq> None" by auto
  have "df = set_session_datetime sds (set_timestamp ts (DataFrame rs))"
    using assms rs ne ts sd sds
    by (simp add: process_data_def get_column_DataFrame tk Let_def)
  then have "length (records df) = length rs"
    using lts lsd by (simp add: set_session_datetime_def set_timestamp_def)
  with rs ne pts psd show ?thesis by auto
qed

lemma process_data_reject:
  assumes "flatten docs = Inr rs" and "r \<in> set rs"
    and "parse (timestamp r) = None \<or> parse (session_datetime r) = None"
  shows "process_data parse docs = Inl ValueError"
proof -
  from assms have ne: "rs \<noteq> []" by auto
  have tk: "''timestamp'' \<in> set row_keys" "''session_datetime'' \<in> set row_keys"
    by (simp_all add: row_keys_def)
  show ?thesis
  proof (cases "to_datetime parse (map timestamp rs)")
    case (Inl e)
    then have "to_datetime parse (map timestamp rs) = Inl ValueError"
      using to_datetime_Inl [of parse "map timestamp rs" e] by simp
    then show ?thesis
      using assms(1) ne by (simp add: process_data_def get_column_DataFrame tk Let_def)
  next
    case (Inr ts)
    from to_datetime_Inr [OF Inr] have lts: "length ts = length rs"
      and pts: "\<forall>r\<in>set rs. parse (timestamp r) \<noteq> None" by auto
    with assms have bad: "parse (session_datetime r) = None" by auto
    have cols: "columns (set_timestamp ts (DataFrame rs)) = row_keys"
      using ne by (simp add: set_timestamp_def DataFrame_def)
    have sd: "get_column ''session_datetime'' session_datetime (set_timestamp ts (DataFrame rs))
                = Inr (map session_datetime rs)"
      using session_datetime_set_timestamp [of ts "DataFrame rs"] lts tk
      by (simp add: get_column_def cols)
    have "to_datetime parse (map session_datetime rs) = Inl ValueError"
      by (rule to_datetime_reject [of "session_datetime r"]) (use assms(2) bad in auto)
    then show ?thesis
      using assms(1) ne Inr sd
      by (simp add: process_data_def get_column_DataFrame tk Let_def)
  qed
qed

section \<open>Properties of the flattener and the table builder\<close>

lemma for_rows_skip:
  "body x = Inr [] \<Longrightarrow> for_rows body (xs @ x # ys) = for_rows body (xs @ ys)"
  by (simp add: for_rows_append split: sum.splits)

lemma for_rows_all_empty:
  "\<forall>x\<in>set xs. body x = Inr [] \<Longrightarrow> for_rows body xs = Inr []"
  by (induction xs) auto

text \<open>
  Claim C10. A document without the key \<^verbatim>\<open>chat_history\<close> yields no rows and no
  exception, alone and anywhere inside a list of documents; a session without the key
  \<^verbatim>\<open>chat_data\<close> likewise contributes no rows to its document.
\<close>

theorem absent_list_keys_give_no_rows:
  "(map_of d ''chat_history'' = None \<longrightarrow>
      document_rows (PyDict d) = Inr [] \<and>
      flatten (ds @ PyDict d # ds') = flatten (ds @ ds')) \<and>
   (map_of s ''chat_data'' = None \<longrightarrow>
      session_rows (PyDict d') (PyDict s) = Inr [] \<and>
      for_rows (session_rows (PyDict d')) (ss @ PyDict s # ss') =
        for_rows (session_rows (PyDict d')) (ss @ ss'))"
proof (intro conjI impI)
  assume a: "map_of d ''chat_history'' = None"
  then show b: "document_rows (PyDict d) = Inr []"
    by (simp add: document_rows_def)
  show "flatten (ds @ PyDict d # ds') = flatten (ds @ ds')"
    unfolding flatten_def by (rule for_rows_skip) (rule b)
next
  assume a: "map_of s ''chat_data'' = None"
  then show b: "session_rows (PyDict d') (PyDict s) = Inr []"
    by (simp add: session_rows_def)
  show "for_rows (session_rows (PyDict d')) (ss @ PyDict s # ss') =
        for_rows (session_rows (PyDict d')) (ss @ ss')"
    by (rule for_rows_skip) (rule b)
qed

theorem absent_list_keys_witness:
  "map_of [(''note'', PyInt 1)] ''chat_history'' = None \<and>
   document_rows (PyDict [(''note'', PyInt 1)]) = Inr [] \<and>
   flatten ([] @ PyDict [(''note'', PyInt 1)] # []) = Inr [] \<and>
   map_of [(''session_id'', PyStr ''s1'')] ''chat_data'' = None \<and>
   session_rows (PyDict []) (PyDict [(''session_id'', PyStr ''s1'')]) = Inr [] \<and>
   for_rows (session_rows (PyDict [])) ([] @ PyDict [(''session_id'', PyStr ''s1'')] # []) = Inr []"
  using absent_list_keys_give_no_rows
    [of "[(''note'', PyInt 1)]" "[]" "[]" "[(''session_id'', PyStr ''s1'')]" "[]" "[]" "[]"]
  by (simp add: flatten_def)

text \<open>
  Claim C3. For well-formed documents the flattener returns, and the number of rows is the
  sum of the turn counts of all sessions of all documents; a table that
  \<^verbatim>\<open>process_data\<close> returns has that many rows.
\<close>

theorem row_count_is_turn_count:
  assumes "list_all wf_document docs"
  shows "(\<exists>rs. flatten docs = Inr rs \<and> length rs = sum_list (map document_turns docs)) \<and>
         (\<forall>parse df. process_data parse docs = Inr df \<longrightarrow>
            length (records df) = sum_list (map document_turns docs))"
proof -
  from flatten_total [OF assms] obtain rs where
    rs: "flatten docs = Inr rs" "length rs = sum_list (map document_turns docs)" by blast
  have "length (records df) = sum_list (map document_turns docs)"
    if "process_data parse docs = Inr df" for parse df
    using process_data_Inr [OF that] rs by auto
  with rs show ?thesis by blast
qed

text \<open>
  Claim C2. If one flattened turn has a \<^verbatim>\<open>timestamp\<close> or a
  \<^verbatim>\<open>session_datetime\<close> that the date-time parser rejects, then
  \<^verbatim>\<open>process_data\<close> raises and returns no table: no row is skipped or patched.
\<close>

theorem malformed_timestamp_fails_build:
  assumes "flatten docs = Inr rs" and "r \<in> set rs"
    and "parse (timestamp r) = None \<or> parse (session_datetime r) = None"
  shows "process_data parse docs = Inl ValueError"
  using process_data_reject [OF assms] .

text \<open>
  Claim C4. When the documents flatten to no rows at all (for instance when no document
  yields a row), \<^verbatim>\<open>process_data\<close> raises \<^verbatim>\<open>KeyError\<close> on the column
  \<^verbatim>\<open>timestamp\<close>, which the empty frame does not have; a table is returned only
  when there is at least one row.
\<close>

theorem no_rows_no_table:
  "(flatten docs = Inr [] \<longrightarrow> process_data parse docs = Inl (KeyError ''timestamp'')) \<and>
   (list_all (\<lambda>d. document_rows d = Inr []) docs \<longrightarrow>
      process_data parse docs = Inl (KeyError ''timestamp'')) \<and>
   (process_data parse docs = Inr df \<longrightarrow>
      records df \<noteq> [] \<and> (\<exists>rs. flatten docs = Inr rs \<and> rs \<noteq> []))"
proof (intro conjI impI)
  assume "flatten docs = Inr []"
  then show "process_data parse docs = Inl (KeyError ''timestamp'')"
    by (rule process_data_no_rows)
next
  assume "list_all (\<lambda>d. document_rows d = Inr []) docs"
  then have "flatten docs = Inr []"
    unfolding flatten_def by (intro for_rows_all_empty) (simp add: list_all_iff)
  then show "process_data parse docs = Inl (KeyError ''timestamp'')"
    by (rule process_data_no_rows)
next
  assume a: "process_data parse docs = Inr df"
  from process_data_Inr [OF a] show "records df \<noteq> []" by auto
  from process_data_Inr [OF a] show "\<exists>rs. flatten docs = Inr rs \<and> rs \<noteq> []" by auto
qed

lemma for_rows_member:
  assumes "for_rows body xs = Inr rs" and "r \<in> set rs"
  shows "\<exists>x\<in>set xs. \<exists>rs'. body x = Inr rs' \<and> r \<in> set rs'"
  using assms
proof (induction xs arbitrary: rs)
  case Nil
  then show ?case by simp
next
  case (Cons x xs)
  from Cons.prems(1) obtain r1 r2 where b: "body x = Inr r1" "for_rows body xs = Inr r2"
    "rs = r1 @ r2"
    by (auto split: sum.splits)
  with Cons.prems(2) consider "r \<in> set r1" | "r \<in> set r2" by auto
  then show ?case
  proof cases
    case 1
    with b show ?thesis by auto
  next
    case 2
    from Cons.IH [OF b(2) 2] show ?thesis by auto
  qed
qed

lemma chat_row_sentinel:
  "chat_row (case map_of s ''user_id'' of None \<Rightarrow> PyStr ''Unknown'' | Some v \<Rightarrow> v)
     (case map_of s ''project_id'' of None \<Rightarrow> PyStr ''Unknown'' | Some v \<Rightarrow> v)
     (case map_of s ''session_id'' of None \<Rightarrow> PyStr ''Unknown'' | Some v \<Rightarrow> v)
     (case map_of s ''datetime'' of None \<Rightarrow> PyStr '''' | Some v \<Rightarrow> v)
     (case map_of s ''session_total_tokens'' of None \<Rightarrow> PyInt 0 | Some v \<Rightarrow> v)
     (case map_of d ''source_file'' of None \<Rightarrow> PyStr ''Unknown'' | Some v \<Rightarrow> v)
     (PyDict c) = Inr [sentinel_row d s c]"
  by (simp add: chat_row_dict sentinel_row_def)

lemma session_rows_turns:
  assumes "map_of s ''chat_data'' = Some (PyList cs)" and "list_all is_dict cs"
  shows "\<exists>rs. session_rows (PyDict d) (PyDict s) = Inr rs \<and>
     list_all2 (\<lambda>turn r. \<exists>c. turn = PyDict c \<and> r = sentinel_row d s c) cs rs"
proof -
  let ?body = "chat_row (case map_of s ''user_id'' of None \<Rightarrow> PyStr ''Unknown'' | Some v \<Rightarrow> v)
     (case map_of s ''project_id'' of None \<Rightarrow> PyStr ''Unknown'' | Some v \<Rightarrow> v)
     (case map_of s ''session_id'' of None \<Rightarrow> PyStr ''Unknown'' | Some v \<Rightarrow> v)
     (case map_of s ''datetime'' of None \<Rightarrow> PyStr '''' | Some v \<Rightarrow> v)
     (case map_of s ''session_total_tokens'' of None \<Rightarrow> PyInt 0 | Some v \<Rightarrow> v)
     (case map_of d ''source_file'' of None \<Rightarrow> PyStr ''Unknown'' | Some v \<Rightarrow> v)"
  have sr: "session_rows (PyDict d) (PyDict s) = for_rows ?body cs"
    using assms(1) by (simp add: session_rows_def)
  have "\<exists>rs. for_rows ?body cs = Inr rs \<and>
     list_all2 (\<lambda>turn r. \<exists>c. turn = PyDict c \<and> r = sentinel_row d s c) cs rs"
    using assms(2)
  proof (induction cs)
    case Nil
    show ?case by simp
  next
    case (Cons t ts)
    then obtain c where c: "t = PyDict c" by (auto simp: is_dict_iff)
    from Cons obtain rs where "for_rows ?body ts = Inr rs"
      "list_all2 (\<lambda>turn r. \<exists>c. turn = PyDict c \<and> r = sentinel_row d s c) ts rs"
      by auto
    with c show ?case by (simp add: chat_row_sentinel)
  qed
  with sr show ?thesis by simp
qed

lemma list_all2_member:
  "list_all2 R xs ys \<Longrightarrow> y \<in> set ys \<Longrightarrow> \<exists>x\<in>set xs. R x y"
  by (induction xs ys rule: list_all2_induct) auto

lemma flatten_rows_origin:
  assumes "list_all wf_document docs" and "flatten docs = Inr rs" and "r \<in> set rs"
  shows "\<exists>d ss s cs c. PyDict d \<in> set docs \<and>
           map_of d ''chat_history'' = Some (PyList ss) \<and> PyDict s \<in> set ss \<and>
           map_of s ''chat_data'' = Some (PyList cs) \<and> PyDict c \<in> set cs \<and>
           r = sentinel_row d s c"
proof -
  from for_rows_member [OF assms(2) [unfolded flatten_def] assms(3)] obtain doc rs1 where
    doc: "doc \<in> set docs" "document_rows doc = Inr rs1" "r \<in> set rs1" by blast
  from assms(1) doc(1) have wd: "wf_document doc" by (simp add: list_all_iff)
  then obtain d where d: "doc = PyDict d" by (cases doc) simp_all
  from doc(2,3) d obtain v where v: "map_of d ''chat_history'' = Some v"
    by (cases "map_of d ''chat_history''") (auto simp: document_rows_def)
  with wd d obtain ss where ss: "v = PyList ss" "list_all wf_session ss"
    by (cases v) simp_all
  from doc(2) d v ss have "for_rows (session_rows (PyDict d)) ss = Inr rs1"
    by (simp add: document_rows_def)
  from for_rows_member [OF this doc(3)] obtain sess rs2 where
    sess: "sess \<in> set ss" "session_rows (PyDict d) sess = Inr rs2" "r \<in> set rs2" by blast
  from ss(2) sess(1) have ws: "wf_session sess" by (simp add: list_all_iff)
  then obtain s where s: "sess = PyDict s" by (cases sess) simp_all
  from sess(2,3) s obtain w where w: "map_of s ''chat_data'' = Some w"
    by (cases "map_of s ''chat_data''") (auto simp: session_rows_def)
  with ws s obtain cs where cs: "w = PyList cs" "list_all is_dict cs"
    by (cases w) simp_all
  from session_rows_turns [of s cs d] w cs sess(2) s have
    "list_all2 (\<lambda>turn r. \<exists>c. turn = PyDict c \<and> r = sentinel_row d s c) cs rs2"
    by auto
  from list_all2_member [OF this sess(3)]
  obtain c where "PyDict c \<in> set cs" "r = sentinel_row d s c"
    by auto
  with doc(1) d v ss(1) sess(1) s w cs(1) show ?thesis by blast
qed

text \<open>
  Claim C7. Every row the flattener produces is the row of one turn in which each of the
  fields takes the value under its key, or its sentinel when the key is absent:
  \<^verbatim>\<open>'Unknown'\<close> for the user, project and session ids and the source file, the empty
  string for the session date-time, the prompt, the response and the timestamp,
  \<^verbatim>\<open>0\<close> for the four token counts. This holds for every turn of every session
  (the rows of a session answer its turns one by one), and flattening well-formed
  documents never raises, whichever keys are missing.
\<close>

theorem missing_fields_default:
  "(map_of s ''chat_data'' = Some (PyList cs) \<and> list_all is_dict cs \<longrightarrow>
      (\<exists>rs. session_rows (PyDict d) (PyDict s) = Inr rs \<and>
         list_all2 (\<lambda>turn r. \<exists>c. turn = PyDict c \<and> r = sentinel_row d s c) cs rs)) \<and>
   (list_all wf_document docs \<longrightarrow>
      (\<exists>rs. flatten docs = Inr rs \<and>
         (\<forall>r\<in>set rs. \<exists>d' ss s' cs' c'.
            PyDict d' \<in> set docs \<and>
            map_of d' ''chat_history'' = Some (PyList ss) \<and> PyDict s' \<in> set ss \<and>
            map_of s' ''chat_data'' = Some (PyList cs') \<and> PyDict c' \<in> set cs' \<and>
            r = sentinel_row d' s' c'))) \<and>
   (map_of s ''user_id'' = None \<longrightarrow> user_id (sentinel_row d s c) = PyStr ''Unknown'') \<and>
   (map_of s ''project_id'' = None \<longrightarrow> project_id (sentinel_row d s c) = PyStr ''Unknown'') \<and>
   (map_of s ''session_id'' = None \<longrightarrow> session_id (sentinel_row d s c) = PyStr ''Unknown'') \<and>
   (map_of s ''datetime'' = None \<longrightarrow> session_datetime (sentinel_row d s c) = PyStr '''') \<and>
   (map_of s ''session_total_tokens'' = None \<longrightarrow>
      session_total_tokens (sentinel_row d s c) = PyInt 0) \<and>
   (map_of d ''source_file'' = None \<longrightarrow> source_file (sentinel_row d s c) = PyStr ''Unknown'') \<and>
   (map_of c ''input_prompt'' = None \<longrightarrow> input_prompt (sentinel_row d s c) = PyStr '''') \<and>
   (map_of c ''output_response'' = None \<longrightarrow> output_response (sentinel_row d s c) = PyStr '''') \<and>
   (map_of c ''timestamp'' = None \<longrightarrow> timestamp (sentinel_row d s c) = PyStr '''') \<and>
   (map_of c ''input_tokens'' = None \<longrightarrow> input_tokens (sentinel_row d s c) = PyInt 0) \<and>
   (map_of c ''output_tokens'' = None \<longrightarrow> output_tokens (sentinel_row d s c) = PyInt 0) \<and>
   (map_of c ''total_tokens'' = None \<longrightarrow> total_tokens (sentinel_row d s c) = PyInt 0)"
proof -
  have a: "map_of s ''chat_data'' = Some (PyList cs) \<and> list_all is_dict cs \<longrightarrow>
      (\<exists>rs. session_rows (PyDict d) (PyDict s) = Inr rs \<and>
         list_all2 (\<lambda>turn r. \<exists>c. turn = PyDict c \<and> r = sentinel_row d s c) cs rs)"
    using session_rows_turns [of s cs d] by blast
  have b: "list_all wf_document docs \<longrightarrow>
      (\<exists>rs. flatten docs = Inr rs \<and>
         (\<forall>r\<in>set rs. \<exists>d' ss s' cs' c'.
            PyDict d' \<in> set docs \<and>
            map_of d' ''chat_history'' = Some (PyList ss) \<and> PyDict s' \<in> set ss \<and>
            map_of s' ''chat_data'' = Some (PyList cs') \<and> PyDict c' \<in> set cs' \<and>
            r = sentinel_row d' s' c'))"
  proof
    assume w: "list_all wf_document docs"
    from flatten_total [OF w] obtain rs where rs: "flatten docs = Inr rs" by blast
    show "\<exists>rs. flatten docs = Inr rs \<and>
         (\<forall>r\<in>set rs. \<exists>d' ss s' cs' c'.
            PyDict d' \<in> set docs \<and>
            map_of d' ''chat_history'' = Some (PyList ss) \<and> PyDict s' \<in> set ss \<and>
            map_of s' ''chat_data'' = Some (PyList cs') \<and> PyDict c' \<in> set cs' \<and>
            r = sentinel_row d' s' c')"
      using rs flatten_rows_origin [OF w rs] by blast
  qed
  show ?thesis
    by (intro conjI a b) (simp_all add: sentinel_row_def)
qed

theorem missing_fields_default_witness:
  "session_rows (PyDict [])
     (PyDict [(''chat_data'', PyList [PyDict [], PyDict [(''input_tokens'', PyInt 7)]])]) =
     Inr [\<lparr>user_id = PyStr ''Unknown'', project_id = PyStr ''Unknown'',
           session_id = PyStr ''Unknown'', session_datetime = PyStr '''',
           session_total_tokens = PyInt 0, source_file = PyStr ''Unknown'',
           input_prompt = PyStr '''', output_response = PyStr '''', timestamp = PyStr '''',
           input_tokens = PyInt 0, output_tokens = PyInt 0, total_tokens = PyInt 0\<rparr>,
          \<lparr>user_id = PyStr ''Unknown'', project_id = PyStr ''Unknown'',
           session_id = PyStr ''Unknown'', session_datetime = PyStr '''',
           session_total_tokens = PyInt 0, source_file = PyStr ''Unknown'',
           input_prompt = PyStr '''', output_response = PyStr '''', timestamp = PyStr '''',
           input_tokens = PyInt 7, output_tokens = PyInt 0, total_tokens = PyInt 0\<rparr>] \<and>
   flatten [PyDict [(''chat_history'', PyList
      [PyDict [(''chat_data'', PyList [PyDict [], PyDict [(''input_tokens'', PyInt 7)]])]])]] =
     Inr [\<lparr>user_id = PyStr ''Unknown'', project_id = PyStr ''Unknown'',
           session_id = PyStr ''Unknown'', session_datetime = PyStr '''',
           session_total_tokens = PyInt 0, source_file = PyStr ''Unknown'',
           input_prompt = PyStr '''', output_response = PyStr '''', timestamp = PyStr '''',
           input_tokens = PyInt 0, output_tokens = PyInt 0, total_tokens = PyInt 0\<rparr>,
          \<lparr>user_id = PyStr ''Unknown'', project_id = PyStr ''Unknown'',
           session_id = PyStr ''Unknown'', session_datetime = PyStr '''',
           session_total_tokens = PyInt 0, source_file = PyStr ''Unknown'',
           input_prompt = PyStr '''', output_response = PyStr '''', timestamp = PyStr '''',
           input_tokens = PyInt 7, output_tokens = PyInt 0, total_tokens = PyInt 0\<rparr>]"
  using missing_fields_default
    [of "[(''chat_data'', PyList [PyDict [], PyDict [(''input_tokens'', PyInt 7)]])]"
        "[PyDict [], PyDict [(''input_tokens'', PyInt 7)]]" "[]"
        "[PyDict [(''chat_history'', PyList
           [PyDict [(''chat_data'', PyList [PyDict [], PyDict [(''input_tokens'', PyInt 7)]])]])]]"
        "[(''input_tokens'', PyInt 7)]"]
  by (simp add: flatten_def document_rows_def session_rows_def chat_row_def)

theorem row_count_witness:
  "list_all wf_document
     [PyDict [(''chat_history'', PyList
        [PyDict [(''chat_data'', PyList [PyDict [], PyDict []])],
         PyDict [(''chat_data'', PyList [PyDict []])],
         PyDict []])],
      PyDict []] \<and>
   (\<exists>rs. flatten
     [PyDict [(''chat_history'', PyList
        [PyDict [(''chat_data'', PyList [PyDict [], PyDict []])],
         PyDict [(''chat_data'', PyList [PyDict []])],
         PyDict []])],
      PyDict []] = Inr rs \<and> length rs = 3)"
  using row_count_is_turn_count
    [of "[PyDict [(''chat_history'', PyList
        [PyDict [(''chat_data'', PyList [PyDict [], PyDict []])],
         PyDict [(''chat_data'', PyList [PyDict []])],
         PyDict []])],
      PyDict []]"]
  by (simp add: numeral_3_eq_3)

theorem malformed_timestamp_witness:
  "process_data (\<lambda>v. if v = PyStr ''yesterday'' then None else Some NaT)
     [PyDict [(''chat_history'', PyList [PyDict [(''chat_data'', PyList
        [PyDict [(''timestamp'', PyStr '''')],
         PyDict [(''timestamp'', PyStr ''yesterday'')]])]])]] = Inl ValueError"
  using malformed_timestamp_fails_build
    [of "[PyDict [(''chat_history'', PyList [PyDict [(''chat_data'', PyList
        [PyDict [(''timestamp'', PyStr '''')],
         PyDict [(''timestamp'', PyStr ''yesterday'')]])]])]]"
        "[\<lparr>user_id = PyStr ''Unknown'', project_id = PyStr ''Unknown'',
           session_id = PyStr ''Unknown'', session_datetime = PyStr '''',
           session_total_tokens = PyInt 0, source_file = PyStr ''Unknown'',
           input_prompt = PyStr '''', output_response = PyStr '''', timestamp = PyStr '''',
           input_tokens = PyInt 0, output_tokens = PyInt 0, total_tokens = PyInt 0\<rparr>,
          \<lparr>user_id = PyStr ''Unknown'', project_id = PyStr ''Unknown'',
           session_id = PyStr ''Unknown'', session_datetime = PyStr '''',
           session_total_tokens = PyInt 0, source_file = PyStr ''Unknown'',
           input_prompt = PyStr '''', output_response = PyStr '''',
           timestamp = PyStr ''yesterday'',
           input_tokens = PyInt 0, output_tokens = PyInt 0, total_tokens = PyInt 0\<rparr>]"
        "\<lparr>user_id = PyStr ''Unknown'', project_id = PyStr ''Unknown'',
           session_id = PyStr ''Unknown'', session_datetime = PyStr '''',
           session_total_tokens = PyInt 0, source_file = PyStr ''Unknown'',
           input_prompt = PyStr '''', output_response = PyStr '''',
           timestamp = PyStr ''yesterday'',
           input_tokens = PyInt 0, output_tokens = PyInt 0, total_tokens = PyInt 0\<rparr>"
        "\<lambda>v. if v = PyStr ''yesterday'' then None else Some NaT"]
  by (simp add: flatten_def document_rows_def session_rows_def chat_row_def)

theorem no_rows_no_table_witness:
  "flatten [PyDict [], PyDict [(''chat_history'', PyList [PyDict []])]] = Inr [] \<and>
   process_data (\<lambda>v. Some NaT) [PyDict [], PyDict [(''chat_history'', PyList [PyDict []])]]
     = Inl (KeyError ''timestamp'')"
  using no_rows_no_table
    [of "[PyDict [], PyDict [(''chat_history'', PyList [PyDict []])]]" "\<lambda>v. Some NaT"]
  by (simp add: flatten_def document_rows_def session_rows_def)

section \<open>The loader and the busiest hour\<close>

lemma try_load_loadable:
  "loadable c \<Longrightarrow> \<exists>d. try_load n c = Inr d"
  by (cases c rule: loadable.cases) (simp_all add: try_load_def)

lemma try_load_not_loadable:
  "\<not> loadable c \<Longrightarrow> \<exists>e. try_load n c = Inl e"
  by (cases c rule: loadable.cases) (simp_all add: try_load_def)

lemma load_loop_counts:
  "load_loop fs (ad, out) = (ad', out') \<Longrightarrow>
     length ad' = length ad + length (filter (\<lambda>f. loadable (snd f)) fs) \<and>
     length (filter is_success out') =
       length (filter is_success out) + length (filter (\<lambda>f. loadable (snd f)) fs) \<and>
     length (filter is_failure out') =
       length (filter is_failure out) + length (filter (\<lambda>f. \<not> loadable (snd f)) fs) \<and>
     map line_file out' = map line_file out @ map fst fs"
proof (induction fs arbitrary: ad out)
  case Nil
  then show ?case by simp
next
  case (Cons f fs)
  obtain n c where f: "f = (n, c)" by (cases f)
  show ?case
  proof (cases "loadable c")
    case True
    from try_load_loadable [OF True] obtain d where d: "try_load n c = Inr d" by blast
    with Cons.prems f have "load_loop fs (ad @ [d], out @ [Loaded n]) = (ad', out')" by simp
    from Cons.IH [OF this] show ?thesis using True f by simp
  next
    case False
    from try_load_not_loadable [OF False] obtain e where e: "try_load n c = Inl e" by blast
    with Cons.prems f have "load_loop fs (ad, out @ [LoadFailed n e]) = (ad', out')" by simp
    from Cons.IH [OF this] show ?thesis using False f by simp
  qed
qed

text \<open>
  Claim C8, as amended. A file is loaded exactly when it parses and the parsed value is a
  dictionary; every other file with the suffix is logged as a failure. The documents
  added are as many as the loadable files, the logged failures as many as the others,
  the two numbers add up to the number of files, the log has one line per file in
  directory order (no file twice, none skipped after a failure), and the last line
  reports the number of documents held.
\<close>

theorem load_json_files_counts:
  "length (fst (load_json_files dir all_data)) =
     length all_data + length (filter (\<lambda>f. loadable (snd f)) (json_files dir)) \<and>
   length (filter is_success (snd (load_json_files dir all_data))) =
     length (filter (\<lambda>f. loadable (snd f)) (json_files dir)) \<and>
   length (filter is_failure (snd (load_json_files dir all_data))) =
     length (filter (\<lambda>f. \<not> loadable (snd f)) (json_files dir)) \<and>
   length (filter (\<lambda>f. loadable (snd f)) (json_files dir)) +
     length (filter (\<lambda>f. \<not> loadable (snd f)) (json_files dir)) = length (json_files dir) \<and>
   map line_file (butlast (snd (load_json_files dir all_data))) = map fst (json_files dir) \<and>
   last (snd (load_json_files dir all_data)) =
     TotalLoaded (length (fst (load_json_files dir all_data)))"
proof -
  obtain ad' out' where l: "load_loop (json_files dir) (all_data, []) = (ad', out')"
    by (cases "load_loop (json_files dir) (all_data, [])")
  have r: "load_json_files dir all_data = (ad', out' @ [TotalLoaded (length ad')])"
    by (simp add: load_json_files_def l)
  from load_loop_counts [OF l] show ?thesis
    by (simp add: r sum_length_filter_compl)
qed

text \<open>
  Claim C8 as stated fails: a file whose content parses to a list parses successfully,
  yet tagging it raises inside the \<^verbatim>\<open>try\<close>, so it is logged as a failure and no
  document is loaded.
\<close>

theorem parsed_list_is_not_loaded:
  "parses (Inr (PyList [])) \<and>
   load_json_files [(''a.json'', Inr (PyList []))] [] =
     ([], [LoadFailed ''a.json'' TypeError, TotalLoaded 0])"
  by (simp add: load_json_files_def json_files_def endswith_def try_load_def)

lemma idxmax_from_first_max:
  fixes best :: "'k::linorder \<times> nat"
  assumes "\<forall>kv\<in>set kvs. fst best < fst kv" and "sorted_wrt (<) (map fst kvs)"
  shows "\<exists>v. (idxmax_from best kvs, v) \<in> set (best # kvs) \<and>
           (\<forall>kv\<in>set (best # kvs).
              snd kv \<le> v \<and> (snd kv = v \<longrightarrow> idxmax_from best kvs \<le> fst kv))"
  using assms
proof (induction kvs arbitrary: best)
  case Nil
  show ?case by (rule exI [of _ "snd best"]) simp
next
  case (Cons kv kvs)
  show ?case
  proof (cases "snd best < snd kv")
    case True
    have "\<forall>x\<in>set kvs. fst kv < fst x" using Cons.prems(2) by auto
    moreover have "sorted_wrt (<) (map fst kvs)" using Cons.prems(2) by simp
    ultimately obtain v where v: "(idxmax_from kv kvs, v) \<in> set (kv # kvs)"
      "\<forall>x\<in>set (kv # kvs). snd x \<le> v \<and> (snd x = v \<longrightarrow> idxmax_from kv kvs \<le> fst x)"
      using Cons.IH [of kv] by blast
    from v(2) have "snd kv \<le> v" by simp
    with True have "snd best < v" by simp
    with v True show ?thesis
      by (intro exI [of _ v]) auto
  next
    case False
    have "\<forall>x\<in>set kvs. fst best < fst x" using Cons.prems(1) by simp
    moreover have "sorted_wrt (<) (map fst kvs)" using Cons.prems(2) by simp
    ultimately obtain v where v: "(idxmax_from best kvs, v) \<in> set (best # kvs)"
      "\<forall>x\<in>set (best # kvs). snd x \<le> v \<and> (snd x = v \<longrightarrow> idxmax_from best kvs \<le> fst x)"
      using Cons.IH [of best] by blast
    from v(2) have b: "snd best \<le> v" "snd best = v \<longrightarrow> idxmax_from best kvs \<le> fst best"
      by simp_all
    have lt: "fst best < fst kv" using Cons.prems(1) by simp
    have "snd kv \<le> v" using False b by simp
    moreover have "snd kv = v \<longrightarrow> idxmax_from best kvs \<le> fst kv"
      using False b lt by auto
    ultimately show ?thesis using v False
      by (intro exI [of _ v]) auto
  qed
qed

lemma idxmax_first_max:
  fixes kvs :: "('k::linorder \<times> nat) list"
  assumes "sorted_wrt (<) (map fst kvs)" and "idxmax kvs = Inr k"
  shows "\<exists>v. (k, v) \<in> set kvs \<and> (\<forall>kv\<in>set kvs. snd kv \<le> v \<and> (snd kv = v \<longrightarrow> k \<le> fst kv))"
proof (cases kvs)
  case Nil
  with assms show ?thesis by simp
next
  case (Cons best rest)
  with assms have k: "k = idxmax_from best rest" by simp
  have "\<forall>kv\<in>set rest. fst best < fst kv" "sorted_wrt (<) (map fst rest)"
    using assms(1) Cons by auto
  from idxmax_from_first_max [OF this] show ?thesis
    unfolding k Cons by blast
qed

lemma set_map_filter_id: "set (List.map_filter (\<lambda>k. k) ks) = {k. Some k \<in> set ks}"
  by (force simp: List.map_filter_def)

lemma groupby_size_keys:
  "sorted_wrt (<) (map fst (groupby_size ks))"
  "set (groupby_size ks) = {(k, count_list ks (Some k)) | k. Some k \<in> set ks}"
proof -
  have "map fst (groupby_size ks) = sort (remdups (List.map_filter (\<lambda>k. k) ks))"
    by (simp add: groupby_size_def comp_def)
  then show "sorted_wrt (<) (map fst (groupby_size ks))"
    by (simp add: strict_sorted_iff)
  show "set (groupby_size ks) = {(k, count_list ks (Some k)) | k. Some k \<in> set ks}"
    by (auto simp: groupby_size_def set_map_filter_id)
qed

lemma idxmax_groupby_size:
  assumes "idxmax (groupby_size ks) = Inr h"
  shows "0 < count_list ks (Some h) \<and>
         (\<forall>k. count_list ks (Some k) \<le> count_list ks (Some h)) \<and>
         (\<forall>k. count_list ks (Some k) = count_list ks (Some h) \<longrightarrow> h \<le> k)"
proof -
  from idxmax_first_max [OF groupby_size_keys(1) assms] obtain v where
    v: "(h, v) \<in> set (groupby_size ks)"
       "\<forall>kv\<in>set (groupby_size ks). snd kv \<le> v \<and> (snd kv = v \<longrightarrow> h \<le> fst kv)"
    by blast
  from v(1) have hv: "v = count_list ks (Some h)" "Some h \<in> set ks"
    by (auto simp: groupby_size_keys(2))
  then have pos: "0 < count_list ks (Some h)"
    using count_list_0_iff [of ks "Some h"] by simp
  have le: "count_list ks (Some k) \<le> count_list ks (Some h) \<and>
            (count_list ks (Some k) = count_list ks (Some h) \<longrightarrow> h \<le> k)" for k
  proof (cases "Some k \<in> set ks")
    case True
    then have "(k, count_list ks (Some k)) \<in> set (groupby_size ks)"
      by (auto simp: groupby_size_keys(2))
    with v(2) hv show ?thesis by fastforce
  next
    case False
    then have "count_list ks (Some k) = 0" by (simp add: count_list_0_iff)
    with pos show ?thesis by simp
  qed
  from pos le show ?thesis by blast
qed

lemma dt_hour_Inr: "dt_hour cells = Inr hs \<Longrightarrow> hs = map hour_of cells"
proof (induction cells arbitrary: hs rule: dt_hour.induct)
  case 1
  then show ?case by simp
next
  case (2 d cs)
  then show ?case by (cases d) (auto split: sum.splits)
qed simp_all

lemma dt_hour_datetimes:
  "\<forall>c\<in>set cells. \<exists>d. c = PyDatetime d \<Longrightarrow> dt_hour cells = Inr (map hour_of cells)"
proof (induction cells)
  case Nil
  show ?case by simp
next
  case (Cons c cs)
  then obtain d where "c = PyDatetime d" by auto
  with Cons show ?case by (cases d) auto
qed

lemma count_list_map_filter:
  "count_list (map f xs) y = length (filter (\<lambda>x. f x = y) xs)"
  by (induction xs) auto

lemma rows_at_hour_count:
  "rows_at_hour df k = count_list (map hour_of (map timestamp (records df))) (Some k)"
  by (simp add: rows_at_hour_def count_list_map_filter comp_def)

lemma busiest_hour_Inr:
  assumes "busiest_hour df = Inr h"
  shows "0 < rows_at_hour df h \<and> (\<forall>k. rows_at_hour df k \<le> rows_at_hour df h) \<and>
         (\<forall>k. rows_at_hour df k = rows_at_hour df h \<longrightarrow> h \<le> k)"
proof -
  from assms have col: "''timestamp'' \<in> set (columns df)"
    by (auto simp: busiest_hour_def get_column_def split: if_splits)
  with assms obtain hs where hs: "dt_hour (map timestamp (records df)) = Inr hs"
    by (cases "dt_hour (map timestamp (records df))")
       (simp_all add: busiest_hour_def get_column_def)
  with assms col have "idxmax (groupby_size hs) = Inr h"
    by (simp add: busiest_hour_def get_column_def)
  from idxmax_groupby_size [OF this] dt_hour_Inr [OF hs] show ?thesis
    by (simp add: rows_at_hour_count)
qed

lemma busiest_hour_exists:
  assumes "''timestamp'' \<in> set (columns df)"
    and "\<forall>r\<in>set (records df). \<exists>d. timestamp r = PyDatetime d"
    and "r \<in> set (records df)" and "hour_of (timestamp r) = Some k"
  shows "\<exists>h. busiest_hour df = Inr h"
proof -
  have hs: "dt_hour (map timestamp (records df)) = Inr (map hour_of (map timestamp (records df)))"
    by (rule dt_hour_datetimes) (use assms(2) in auto)
  have "Some k \<in> set (map hour_of (map timestamp (records df)))"
    using assms(3,4) by force
  then have "groupby_size (map hour_of (map timestamp (records df))) \<noteq> []"
    using groupby_size_keys(2) [of "map hour_of (map timestamp (records df))"]
    by (metis (mono_tags, lifting) empty_iff mem_Collect_eq set_empty)
  then obtain kv kvs where "groupby_size (map hour_of (map timestamp (records df))) = kv # kvs"
    by (cases "groupby_size (map hour_of (map timestamp (records df)))") auto
  then show ?thesis
    using assms(1) hs by (simp add: busiest_hour_def get_column_def)
qed

lemma busiest_hour_example:
  "busiest_hour (DataFrame (map (\<lambda>k. r\<lparr>timestamp := PyDatetime (Timestamp 2024 1 1 k 0 0)\<rparr>)
      [3, 3, 3, 7, 7])) = Inr 3"
  by (simp add: busiest_hour_def get_column_def DataFrame_def row_keys_def groupby_size_def
      List.map_filter_def)

text \<open>
  Claim C5. The busiest hour the report prints is an hour with the largest number of
  rows in the whole table, and the smallest such hour when several tie; it is printed
  whenever the column holds date-times and one of them is not NaT; rows at the hours
  3, 3, 3, 7, 7 give 3.
\<close>

theorem busiest_hour_is_first_maximum:
  "(busiest_hour df = Inr h \<longrightarrow>
      0 < rows_at_hour df h \<and>
      (\<forall>k. rows_at_hour df k \<le> rows_at_hour df h) \<and>
      (\<forall>k. rows_at_hour df k = rows_at_hour df h \<longrightarrow> h \<le> k)) \<and>
   (''timestamp'' \<in> set (columns df) \<and>
    (\<forall>r\<in>set (records df). \<exists>d. timestamp r = PyDatetime d) \<and>
    (\<exists>r\<in>set (records df). \<exists>k. hour_of (timestamp r) = Some k) \<longrightarrow>
      (\<exists>h'. busiest_hour df = Inr h')) \<and>
   busiest_hour (DataFrame (map (\<lambda>k. r\<lparr>timestamp := PyDatetime (Timestamp 2024 1 1 k 0 0)\<rparr>)
      [3, 3, 3, 7, 7])) = Inr 3"
proof (intro conjI impI)
  assume a: "busiest_hour df = Inr h"
  from busiest_hour_Inr [OF a] show "0 < rows_at_hour df h"
    and "\<forall>k. rows_at_hour df k \<le> rows_at_hour df h"
    and "\<forall>k. rows_at_hour df k = rows_at_hour df h \<longrightarrow> h \<le> k"
    by blast+
next
  assume a: "''timestamp'' \<in> set (columns df) \<and>
    (\<forall>r\<in>set (records df). \<exists>d. timestamp r = PyDatetime d) \<and>
    (\<exists>r\<in>set (records df). \<exists>k. hour_of (timestamp r) = Some k)"
  then obtain r k where "r \<in> set (records df)" "hour_of (timestamp r) = Some k" by blast
  with a show "\<exists>h'. busiest_hour df = Inr h'"
    using busiest_hour_exists [of df r k] by blast
next
  show "busiest_hour (DataFrame (map (\<lambda>k. r\<lparr>timestamp := PyDatetime (Timestamp 2024 1 1 k 0 0)\<rparr>)
      [3, 3, 3, 7, 7])) = Inr 3"
    by (rule busiest_hour_example)
qed

theorem busiest_hour_tie_witness:
  "busiest_hour (DataFrame (map (\<lambda>k.
       \<lparr>user_id = PyStr ''u'', project_id = PyStr ''p'', session_id = PyStr ''s'',
        session_datetime = PyDatetime NaT, session_total_tokens = PyInt 0,
        source_file = PyStr ''a.json'', input_prompt = PyStr '''', output_response = PyStr '''',
        timestamp = PyDatetime (Timestamp 2024 1 1 k 0 0),
        input_tokens = PyInt 0, output_tokens = PyInt 0, total_tokens = PyInt 0\<rparr>)
     [7, 3, 7, 3, 5])) = Inr 3 \<and>
   rows_at_hour (DataFrame (map (\<lambda>k.
       \<lparr>user_id = PyStr ''u'', project_id = PyStr ''p'', session_id = PyStr ''s'',
        session_datetime = PyDatetime NaT, session_total_tokens = PyInt 0,
        source_file = PyStr ''a.json'', input_prompt = PyStr '''', output_response = PyStr '''',
        timestamp = PyDatetime (Timestamp 2024 1 1 k 0 0),
        input_tokens = PyInt 0, output_tokens = PyInt 0, total_tokens = PyInt 0\<rparr>)
     [7, 3, 7, 3, 5])) 3 = 2 \<and>
   rows_at_hour (DataFrame (map (\<lambda>k.
       \<lparr>user_id = PyStr ''u'', project_id = PyStr ''p'', session_id = PyStr ''s'',
        session_datetime = PyDatetime NaT, session_total_tokens = PyInt 0,
        source_file = PyStr ''a.json'', input_prompt = PyStr '''', output_response = PyStr '''',
        timestamp = PyDatetime (Timestamp 2024 1 1 k 0 0),
        input_tokens = PyInt 0, output_tokens = PyInt 0, total_tokens = PyInt 0\<rparr>)
     [7, 3, 7, 3, 5])) 7 = 2"
  using busiest_hour_is_first_maximum
    [of "DataFrame (map (\<lambda>k.
       \<lparr>user_id = PyStr ''u'', project_id = PyStr ''p'', session_id = PyStr ''s'',
        session_datetime = PyDatetime NaT, session_total_tokens = PyInt 0,
        source_file = PyStr ''a.json'', input_prompt = PyStr '''', output_response = PyStr '''',
        timestamp = PyDatetime (Timestamp 2024 1 1 k 0 0),
        input_tokens = PyInt 0, output_tokens = PyInt 0, total_tokens = PyInt 0\<rparr>)
     [7, 3, 7, 3, 5])" 3]
  by (simp add: busiest_hour_def get_column_def DataFrame_def row_keys_def groupby_size_def
      List.map_filter_def rows_at_hour_def)

section \<open>The token chart, the overall statistics and the word lists\<close>

lemma set_unique_from: "set (unique_from seen xs) = set seen \<union> set xs"
  by (induction xs arbitrary: seen) auto

lemma distinct_unique_from: "distinct seen \<Longrightarrow> distinct (unique_from seen xs)"
  by (induction xs arbitrary: seen) auto

lemma set_unique [simp]: "set (unique xs) = set xs"
  by (simp add: unique_def set_unique_from)

lemma distinct_unique [simp]: "distinct (unique xs)"
  by (simp add: unique_def distinct_unique_from)


lemma ints_int64_cells [simp]: "list_all is_int64_cell (map PyInt ns) = list_all in_int64 ns"
  by (induction ns) simp_all

lemma int_values_ints [simp]: "int_values (map PyInt ns) = ns"
  by (induction ns) simp_all















lemma report_ranking_example:
  "report_word_ranking ''The cat and the dog'' =
     [(''the'', 2), (''cat'', 1), (''and'', 1), (''dog'', 1)]"
  by code_simp

lemma chart_ranking_example:
  "chart_word_ranking ''The cat and the dog'' = [(''cat'', 1), (''dog'', 1)]"
  by code_simp

text \<open>
  Claim C1 does not hold of the code. The report counts every token and never removes
  the stop words, while the chart removes them: on a table with the single prompt
  "The cat and the dog" the report lists "the" first and "and" third, and the chart's
  ranking over the same text holds neither.
\<close>

theorem report_top_words_keep_stop_words:
  "report_top_words str_of (DataFrame [r\<lparr>input_prompt := PyStr ''The cat and the dog''\<rparr>]) =
     Inr [(''the'', 2), (''cat'', 1), (''and'', 1), (''dog'', 1)] \<and>
   common_words_chart str_of (source_file r)
       (DataFrame [r\<lparr>input_prompt := PyStr ''The cat and the dog''\<rparr>]) =
     Inr ([''cat'', ''dog''], [1, 1]) \<and>
   take 5 (chart_word_ranking ''The cat and the dog'') = [(''cat'', 1), (''dog'', 1)]"
  by (simp add: report_top_words_def common_words_chart_def prompt_text_def file_data_def
      get_column_def DataFrame_def row_keys_def astype_str_def
      report_ranking_example chart_ranking_example)

end
